theory Spec2Isabelle
  imports Main "HOL-Library.Sublist"
begin

section \<open>The event manager of Orca (src/orca/event\_manager.py)\<close>

text \<open>
  The theory embeds \<^verbatim>\<open>EventManager\<close>: the filter \<^verbatim>\<open>_ignore\<close>, duplicate
  detection, the deluge and flood rules, the suspension gate, the listener reference
  counts, \<^verbatim>\<open>_enqueue\<close>, \<^verbatim>\<open>_dequeue\<close>, \<^verbatim>\<open>_processObjectEvent\<close> and the activation
  decider \<^verbatim>\<open>_isActivatableEvent\<close>. Attributes of the Python object are fields of the
  record \<open>manager\<close>; the globals of \<^verbatim>\<open>orca_state\<close> that the manager reads and writes are
  fields of the same record. Every method takes the record and returns the updated one.
  Debug output is left out: it changes nothing the manager reads.
\<close>

subsection \<open>Accessible objects, scripts, events\<close>

text \<open>
  An accessible object and a script are Python objects compared by identity: each is
  a tagged number. Python's \<^verbatim>\<open>None\<close> is \<open>None\<close> of the option type.
\<close>

datatype obj = Obj nat

datatype script = Script nat

text \<open>The roles of \<^verbatim>\<open>Atspi.Role\<close> that the manager looks at; any other role is \<open>ROLE_OTHER\<close>.\<close>

datatype role =
    INVALID | ALERT | ANIMATION | CANVAS | CHECK_BOX | CHECK_MENU_ITEM | DIALOG
  | FILLER | ICON | IMAGE | INFO_BAR | LABEL | LAYERED_PANE | LIST | LIST_ITEM
  | MENU | MENU_ITEM | NOTIFICATION | PANEL | PUSH_BUTTON | RADIO_BUTTON
  | RADIO_MENU_ITEM | SECTION | SPLIT_PANE | STATIC | STATUS_BAR | TABLE_CELL
  | TABLE_ROW | TEXT | TOOL_TIP | TREE_ITEM | ROLE_OTHER nat

text \<open>
  \<^verbatim>\<open>event.any_data\<close>: absent, a Python string (a list of code points, so that
  U+FFFC can occur in it), an accessible object, or a value of another kind.
\<close>

datatype payload = NoData | TextData "nat list" | ObjData obj | OtherData int

text \<open>
  Modelled from the spec: the event envelope (its classes live in \<^verbatim>\<open>input_event.py\<close>
  and in Atspi, neither is among the sources). The spec gives every envelope a
  category, a source, two detail integers, a payload and a kind. \<open>cls\<close> is the kind, read
  by the \<^verbatim>\<open>isinstance\<close> tests of \<^verbatim>\<open>_enqueue\<close> and \<^verbatim>\<open>_dequeue\<close>. \<open>eid\<close> stands for
  the identity of the Python object: \<^verbatim>\<open>e in list\<close> and \<^verbatim>\<open>list.remove(e)\<close> compare
  whole events, and two distinct events may agree on every other field.
\<close>

datatype event_class = AtspiEvent | MouseButtonEvent | KeyboardEvent | BrailleEvent

record event =
  eid :: nat
  cls :: event_class
  etype :: string
  source :: "obj option"
  detail1 :: int
  detail2 :: int
  any_data :: payload

datatype exn = TypeError | AttributeError

subsection \<open>Python string tests\<close>

definition startswith :: "string \<Rightarrow> string \<Rightarrow> bool" where
  "startswith s p = prefix p s"

definition endswith :: "string \<Rightarrow> string \<Rightarrow> bool" where
  "endswith s p = prefix (rev p) (rev s)"

definition lower_char :: "char \<Rightarrow> char" where
  "lower_char c =
     (if (65::nat) \<le> of_char c \<and> of_char c \<le> (90::nat)
      then char_of (of_char c + (32::nat)) else c)"

definition lower :: "string \<Rightarrow> string" where
  "lower s = map lower_char s"

text \<open>\<^verbatim>\<open>EMBEDDED_OBJECT_CHARACTER\<close>, the code point U+FFFC.\<close>

definition EMBEDDED_OBJECT_CHARACTER :: nat where
  "EMBEDDED_OBJECT_CHARACTER = 65532"

subsection \<open>The object query facade and the script manager\<close>

text \<open>
  What the manager asks of its collaborators is a record of functions, fixed during one
  call of the manager. The four \<open>atspi\<close> fields are the raw Atspi calls that
  \<^verbatim>\<open>ax_object.py\<close> wraps (\<open>None\<close>: the call raises, or returns \<^verbatim>\<open>None\<close>), and
  \<open>known_dead\<close> is membership in \<^verbatim>\<open>AXObject.KNOWN_DEAD\<close>; the wrappers below are
  translated from \<^verbatim>\<open>ax_object.py\<close>. The predicates of \<^verbatim>\<open>AXUtilities\<close> and the methods
  of the script manager and of a script are parameters: their modules are not among the
  sources.
\<close>

record facade =
  known_dead :: "obj \<Rightarrow> bool"
  atspi_get_name :: "obj \<Rightarrow> string option"
  atspi_get_role :: "obj \<Rightarrow> role option"
  atspi_get_application :: "obj \<Rightarrow> obj option"
  atspi_get_toolkit_name :: "obj \<Rightarrow> string option"
  has_no_state :: "obj option \<Rightarrow> bool"
  is_defunct :: "obj option \<Rightarrow> bool"
  is_focused :: "obj option \<Rightarrow> bool"
  is_table_related :: "obj option \<Rightarrow> bool"
  is_tree_related :: "obj option \<Rightarrow> bool"
  is_section :: "obj option \<Rightarrow> bool"
  manages_descendants :: "obj option \<Rightarrow> bool"
  is_image :: "obj option \<Rightarrow> bool"
  is_menu_item :: "obj option \<Rightarrow> bool"
  is_frame :: "obj option \<Rightarrow> bool"
  is_window :: "obj option \<Rightarrow> bool"
  is_document :: "obj option \<Rightarrow> bool"
  is_table :: "obj option \<Rightarrow> bool"
  is_notification :: "obj option \<Rightarrow> bool"
  is_menu :: "obj option \<Rightarrow> bool"
  is_focusable :: "obj option \<Rightarrow> bool"
  is_panel :: "obj option \<Rightarrow> bool"
  is_modal :: "obj option \<Rightarrow> bool"
  is_iconified :: "obj option \<Rightarrow> bool"
  get_desktop :: "obj option"
  getScript :: "obj option \<Rightarrow> obj option \<Rightarrow> bool \<Rightarrow> script option"
  getScriptForMouseButtonEvent :: "event \<Rightarrow> script option"
  script_app :: "script \<Rightarrow> obj option"
  script_isActivatableEvent :: "script \<Rightarrow> event \<Rightarrow> bool"
  script_forceScriptActivation :: "script \<Rightarrow> event \<Rightarrow> bool"
  setActiveScript_raises :: "script \<Rightarrow> bool"

definition is_valid :: "facade \<Rightarrow> obj option \<Rightarrow> bool" where
  "is_valid ax ob = (case ob of None \<Rightarrow> False | Some x \<Rightarrow> \<not> known_dead ax x)"

definition get_role :: "facade \<Rightarrow> obj option \<Rightarrow> role" where
  "get_role ax ob =
     (case ob of
        None \<Rightarrow> INVALID
      | Some x \<Rightarrow>
          if known_dead ax x then INVALID
          else (case atspi_get_role ax x of None \<Rightarrow> INVALID | Some r \<Rightarrow> r))"

definition get_name :: "facade \<Rightarrow> obj option \<Rightarrow> string" where
  "get_name ax ob =
     (case ob of
        None \<Rightarrow> []
      | Some x \<Rightarrow>
          if known_dead ax x then []
          else (case atspi_get_name ax x of None \<Rightarrow> [] | Some n \<Rightarrow> n))"

definition get_application :: "facade \<Rightarrow> obj option \<Rightarrow> obj option" where
  "get_application ax ob =
     (case ob of
        None \<Rightarrow> None
      | Some x \<Rightarrow> if known_dead ax x then None else atspi_get_application ax x)"

definition get_application_toolkit_name :: "facade \<Rightarrow> obj option \<Rightarrow> string" where
  "get_application_toolkit_name ax ob =
     (if \<not> is_valid ax ob then []
      else (case get_application ax ob of
              None \<Rightarrow> []
            | Some app \<Rightarrow>
                (case atspi_get_toolkit_name ax app of None \<Rightarrow> [] | Some n \<Rightarrow> n)))"

definition is_dead :: "facade \<Rightarrow> obj option \<Rightarrow> bool" where
  "is_dead ax ob =
     (case ob of
        None \<Rightarrow> False
      | Some x \<Rightarrow> if known_dead ax x then True else atspi_get_name ax x = None)"

text \<open>
  \<^verbatim>\<open>AXObject.is_dead(event.any_data)\<close>: a payload that is no accessible object makes
  \<^verbatim>\<open>Atspi.Accessible.get_name\<close> raise, which \<^verbatim>\<open>is_dead\<close> catches and answers True.
\<close>

definition payload_obj :: "payload \<Rightarrow> obj option" where
  "payload_obj p = (case p of ObjData x \<Rightarrow> Some x | _ \<Rightarrow> None)"

definition payload_is_dead :: "facade \<Rightarrow> payload \<Rightarrow> bool" where
  "payload_is_dead ax p =
     (case p of NoData \<Rightarrow> False | ObjData x \<Rightarrow> is_dead ax (Some x) | _ \<Rightarrow> True)"

text \<open>\<^verbatim>\<open>event.any_data == orca_state.locusOfFocus\<close>\<close>

definition payload_equals :: "payload \<Rightarrow> obj option \<Rightarrow> bool" where
  "payload_equals p ob =
     (case p of NoData \<Rightarrow> ob = None | ObjData x \<Rightarrow> ob = Some x | _ \<Rightarrow> False)"

subsection \<open>The manager's state\<close>

text \<open>
  The first eleven fields are the attributes set in \<^verbatim>\<open>__init__\<close>; the next three are
  \<^verbatim>\<open>orca_state.locusOfFocus\<close>, \<^verbatim>\<open>activeWindow\<close> and \<^verbatim>\<open>activeScript\<close>. The rest
  records, in call order, what the manager asks of the outside: registrations on the
  Atspi listener, \<^verbatim>\<open>GLib.idle_add\<close> and \<^verbatim>\<open>GLib.timeout_add\<close> calls, the events that
  \<^verbatim>\<open>_dequeue\<close> took from the queue, the calls of a script's \<^verbatim>\<open>processObjectEvent\<close> or
  \<^verbatim>\<open>processBrailleEvent\<close>, the calls of \<^verbatim>\<open>setActiveScript\<close> that returned, and the
  number of \<^verbatim>\<open>reclaimScripts\<close> calls.
\<close>

datatype bus_call = BusRegister string | BusDeregister string

record manager =
  asyncMode :: bool
  scriptListenerCounts :: "string \<rightharpoonup> int"
  active :: bool
  eventQueue :: "event list"
  gidleId :: nat
  synchronousToolkits :: "string list"
  eventsSuspended :: bool
  suspendableEvents :: "string list"
  eventsTriggeringSuspension :: "event list"
  ignoredEvents :: "string list"
  parentsOfDefunctDescendants :: "obj option list"
  locusOfFocus :: "obj option"
  activeWindow :: "obj option"
  activeScript :: "script option"
  busCalls :: "bus_call list"
  idleAdds :: nat
  timeoutAdds :: nat
  dequeued :: "event list"
  scriptCalls :: "(script \<times> event) list"
  activations :: "script option list"
  reclaims :: nat

text \<open>\<^verbatim>\<open>EventManager.__init__\<close>, with nothing focused and no call made yet.\<close>

definition init_manager :: "bool \<Rightarrow> manager" where
  "init_manager am =
     \<lparr> asyncMode = am,
       scriptListenerCounts = Map.empty,
       active = False,
       eventQueue = [],
       gidleId = 0,
       synchronousToolkits = [''VCL''],
       eventsSuspended = False,
       suspendableEvents =
         [''object:children-changed:add'',
          ''object:children-changed:remove'',
          ''object:state-changed:sensitive'',
          ''object:state-changed:showing'',
          ''object:text-changed:delete''],
       eventsTriggeringSuspension = [],
       ignoredEvents =
         [''object:bounds-changed'',
          ''object:state-changed:defunct'',
          ''object:property-change:accessible-parent''],
       parentsOfDefunctDescendants = [],
       locusOfFocus = None,
       activeWindow = None,
       activeScript = None,
       busCalls = [],
       idleAdds = 0,
       timeoutAdds = 0,
       dequeued = [],
       scriptCalls = [],
       activations = [],
       reclaims = 0 \<rparr>"

text \<open>\<^verbatim>\<open>activate\<close> and \<^verbatim>\<open>deactivate\<close> (the input device is not modelled).\<close>

definition activate :: "manager \<Rightarrow> manager" where
  "activate s = s\<lparr>active := True\<rparr>"

definition deactivate :: "manager \<Rightarrow> manager" where
  "deactivate s = s\<lparr>active := False, eventQueue := [], scriptListenerCounts := Map.empty\<rparr>"

subsection \<open>Listener reference counts\<close>

definition registerListener :: "manager \<Rightarrow> string \<Rightarrow> manager" where
  "registerListener s eventType =
     (case scriptListenerCounts s eventType of
        Some c \<Rightarrow> s\<lparr>scriptListenerCounts := (scriptListenerCounts s)(eventType \<mapsto> c + 1)\<rparr>
      | None \<Rightarrow>
          s\<lparr>busCalls := busCalls s @ [BusRegister eventType],
            scriptListenerCounts := (scriptListenerCounts s)(eventType \<mapsto> 1)\<rparr>)"

definition deregisterListener :: "manager \<Rightarrow> string \<Rightarrow> manager" where
  "deregisterListener s eventType =
     (case scriptListenerCounts s eventType of
        None \<Rightarrow> s
      | Some c \<Rightarrow>
          if c - 1 = 0
          then s\<lparr>busCalls := busCalls s @ [BusDeregister eventType],
                 scriptListenerCounts := (scriptListenerCounts s)(eventType := None)\<rparr>
          else s\<lparr>scriptListenerCounts := (scriptListenerCounts s)(eventType \<mapsto> c - 1)\<rparr>)"

text \<open>The invariant of the subscription table: every count it holds is positive.\<close>

definition positive_counts :: "(string \<rightharpoonup> int) \<Rightarrow> bool" where
  "positive_counts t = (\<forall>k c. t k = Some c \<longrightarrow> 0 < c)"

subsection \<open>The suspension gate\<close>

text \<open>
  \<^verbatim>\<open>for event in self._suspendableEvents: self.deregisterListener(event)\<close> is a left
  fold over the list; \<^verbatim>\<open>list.remove\<close> deletes the first equal element.
\<close>

definition suspendEvents :: "manager \<Rightarrow> event \<Rightarrow> manager" where
  "suspendEvents s triggeringEvent =
     (let s1 = s\<lparr>eventsTriggeringSuspension :=
                   eventsTriggeringSuspension s @ [triggeringEvent]\<rparr>
      in if eventsSuspended s1 then s1
         else (foldl deregisterListener s1 (suspendableEvents s1))\<lparr>eventsSuspended := True\<rparr>)"

definition unsuspendEvents :: "manager \<Rightarrow> event \<Rightarrow> bool \<Rightarrow> manager" where
  "unsuspendEvents s triggeringEvent force =
     (let s1 = (if triggeringEvent \<in> set (eventsTriggeringSuspension s)
                then s\<lparr>eventsTriggeringSuspension :=
                         remove1 triggeringEvent (eventsTriggeringSuspension s)\<rparr>
                else s)
      in if \<not> eventsSuspended s1 then s1
         else if eventsTriggeringSuspension s1 \<noteq> [] \<and> \<not> force then s1
         else (foldl registerListener s1 (suspendableEvents s1))\<lparr>eventsSuspended := False\<rparr>)"

definition shouldSuspendEventsFor :: "facade \<Rightarrow> event \<Rightarrow> bool" where
  "shouldSuspendEventsFor ax event =
     (let top = (is_frame ax (source event)
                 \<or> (is_window ax (source event)
                     \<and> get_application_toolkit_name ax (source event) = ''clutter''))
      in if top \<and> startswith (etype event) ''window'' then True
         else if top \<and> endswith (etype event) ''active'' then True
         else if is_document ax (source event)
                 \<and> endswith (etype event) ''busy'' \<and> detail1 event \<noteq> 0 then True
         else False)"

definition shouldUnsuspendEventsFor :: "facade \<Rightarrow> event \<Rightarrow> bool" where
  "shouldUnsuspendEventsFor ax event =
     (if startswith (etype event) ''object:state-changed:focused'' \<and> detail1 event \<noteq> 0
      then True
      else if is_document ax (source event)
      then (if endswith (etype event) ''busy'' \<and> detail1 event = 0 then True
            else startswith (etype event) ''document:load-complete'')
      else False)"

definition didSuspendEventsFor :: "manager \<Rightarrow> event \<Rightarrow> bool" where
  "didSuspendEventsFor s event = (event \<in> set (eventsTriggeringSuspension s))"

subsection \<open>Deluge and flood\<close>

definition eventSourceIsDead :: "facade \<Rightarrow> event \<Rightarrow> bool" where
  "eventSourceIsDead ax event = is_dead ax (source event)"

text \<open>
  The list \<^verbatim>\<open>ignore\<close>, written out twice in the source with the same fifteen entries
  (in \<^verbatim>\<open>_ignoreDuringDeluge\<close> and in \<^verbatim>\<open>_processDuringFlood\<close>).
\<close>

definition high_volume :: "string list" where
  "high_volume =
     [''object:text-changed:delete'',
      ''object:text-changed:insert'',
      ''object:text-changed:delete:system'',
      ''object:text-changed:insert:system'',
      ''object:text-attributes-changed'',
      ''object:text-caret-moved'',
      ''object:children-changed:add'',
      ''object:children-changed:add:system'',
      ''object:children-changed:remove'',
      ''object:children-changed:remove:system'',
      ''object:property-change:accessible-name'',
      ''object:property-change:accessible-description'',
      ''object:selection-changed'',
      ''object:state-changed:showing'',
      ''object:state-changed:sensitive'']"

definition ignoreDuringDeluge :: "facade \<Rightarrow> manager \<Rightarrow> event \<Rightarrow> bool" where
  "ignoreDuringDeluge ax s event =
     (if eventSourceIsDead ax event then True
      else if etype event \<notin> set high_volume then False
      else source event \<noteq> locusOfFocus s)"

definition inDeluge :: "manager \<Rightarrow> bool" where
  "inDeluge s = (length (eventQueue s) > 100)"

definition processDuringFlood :: "facade \<Rightarrow> manager \<Rightarrow> event \<Rightarrow> bool" where
  "processDuringFlood ax s event =
     (if eventSourceIsDead ax event then False
      else if etype event \<notin> set high_volume then True
      else source event = locusOfFocus s)"

text \<open>
  \<^verbatim>\<open>_prioritizeDuringFlood\<close> returns \<^verbatim>\<open>event.detail1\<close> in its first two cases; every
  caller uses the result as a condition, so the model returns its truth value.
\<close>

definition prioritizeDuringFlood :: "facade \<Rightarrow> event \<Rightarrow> bool" where
  "prioritizeDuringFlood ax event =
     (if startswith (etype event) ''object:state-changed:focused'' then detail1 event \<noteq> 0
      else if startswith (etype event) ''object:state-changed:selected'' then detail1 event \<noteq> 0
      else if startswith (etype event) ''object:text-selection-changed'' then True
      else if startswith (etype event) ''window:activate'' then True
      else if startswith (etype event) ''window:deactivate'' then True
      else if startswith (etype event) ''object:state-changed:active''
      then is_frame ax (source event) \<or> is_window ax (source event)
      else if startswith (etype event) ''document:load-complete'' then True
      else if startswith (etype event) ''object:state-changed:busy'' then True
      else False)"

text \<open>
  \<^verbatim>\<open>_pruneEventsDuringFlood\<close> empties the queue from the front and puts each event that
  \<^verbatim>\<open>_processDuringFlood\<close> accepts at the back of a new queue.
\<close>

fun prune_loop :: "facade \<Rightarrow> manager \<Rightarrow> event list \<Rightarrow> event list \<Rightarrow> event list" where
  "prune_loop ax s [] newQueue = newQueue"
| "prune_loop ax s (event # rest) newQueue =
     prune_loop ax s rest
       (if processDuringFlood ax s event then newQueue @ [event] else newQueue)"

definition pruneEventsDuringFlood :: "facade \<Rightarrow> manager \<Rightarrow> manager" where
  "pruneEventsDuringFlood ax s = s\<lparr>eventQueue := prune_loop ax s (eventQueue s) []\<rparr>"

definition inFlood :: "manager \<Rightarrow> bool" where
  "inFlood s = (length (eventQueue s) > 50)"

subsection \<open>Duplicates\<close>

definition isSame :: "event \<Rightarrow> event \<Rightarrow> bool" where
  "isSame event x =
     (etype x = etype event \<and> source x = source event \<and> detail1 x = detail1 event
      \<and> detail2 x = detail2 event \<and> any_data x = any_data event)"

definition isDuplicateEvent :: "facade \<Rightarrow> manager \<Rightarrow> event \<Rightarrow> bool" where
  "isDuplicateEvent ax s event =
     (if inFlood s \<and> prioritizeDuringFlood ax event then False
      else list_ex (isSame event) (eventQueue s))"

subsection \<open>The filter\<close>

text \<open>
  \<^verbatim>\<open>_ignore\<close> is one chain of tests, each ending in a \<^verbatim>\<open>return\<close>. The model cuts the
  chain in three: the tests up to the one on defunct sources (\<open>ignore\<close> itself), the
  \<^verbatim>\<open>if\<close>/\<^verbatim>\<open>elif\<close> chain on the role of the source (\<open>ignore_role\<close>, True where the source
  returns True) and the block on children-changed and active-descendant-changed events
  (\<open>ignore_children\<close>, which also updates \<^verbatim>\<open>_parentsOfDefunctDescendants\<close>).

  The one test that can raise is \<^verbatim>\<open>EMBEDDED_OBJECT_CHARACTER in event.any_data\<close>
  on a text-changed event: it is a TypeError when the payload is not a
  string. The result is \<open>Inl\<close> of the exception or \<open>Inr\<close> of the returned boolean, next to
  the manager as the call leaves it.
\<close>

definition ignore_role :: "facade \<Rightarrow> manager \<Rightarrow> event \<Rightarrow> bool" where
  "ignore_role ax s event =
     (let role = get_role ax (source event); t = etype event in
      if startswith t ''object:property-change:accessible-name''
      then (if role \<in> set [CANVAS, ICON, LIST_ITEM, LIST, PANEL, SECTION, TABLE_ROW,
                            TABLE_CELL, TREE_ITEM, IMAGE, MENU, MENU_ITEM] then True
            else \<not> is_focused ax (source event)
                 \<and> role \<in> set [PUSH_BUTTON, CHECK_BOX, RADIO_BUTTON])
      else if startswith t ''object:property-change:accessible-value''
      then role = SPLIT_PANE \<and> \<not> is_focused ax (source event)
      else if startswith t ''object:text-changed:insert'' \<and> detail2 event > 1000
              \<and> role \<in> set [TEXT, STATIC]
      then True
      else if startswith t ''object:state-changed:sensitive''
      then role \<in> set [MENU_ITEM, MENU, FILLER, PANEL, CHECK_MENU_ITEM, RADIO_MENU_ITEM]
      else if startswith t ''object:state-changed:selected''
      then detail1 event = 0 \<and> role \<in> set [PUSH_BUTTON]
      else if startswith t ''object:state-changed:showing''
      then role \<notin> set [ALERT, ANIMATION, INFO_BAR, MENU, NOTIFICATION, DIALOG,
                         STATUS_BAR, TOOL_TIP]
      else if startswith t ''object:text-caret-moved''
      then role \<in> set [LABEL] \<and> \<not> is_focused ax (source event)
      else if startswith t ''object:selection-changed''
      then (if source event \<in> set (parentsOfDefunctDescendants s) then True
            else is_dead ax (source event))
      else False)"

definition ignore_children :: "facade \<Rightarrow> manager \<Rightarrow> event \<Rightarrow> bool \<times> manager" where
  "ignore_children ax s event =
     (let role = get_role ax (source event); t = etype event in
      if startswith t ''object:children-changed''
         \<or> startswith t ''object:active-descendant-changed''
      then
        if role \<in> set [MENU, LAYERED_PANE, MENU_ITEM] then (True, s)
        else if any_data event = NoData then (True, s)
        else if endswith t ''remove'' \<and> payload_equals (any_data event) (locusOfFocus s)
        then (False, s)
        else if endswith t ''remove'' \<and> is_dead ax (locusOfFocus s)
        then (False, s)
        else if payload_is_dead ax (any_data event)
                \<or> is_defunct ax (payload_obj (any_data event))
        then (True,
              if manages_descendants ax (source event)
                 \<and> source event \<notin> set (parentsOfDefunctDescendants s)
              then s\<lparr>parentsOfDefunctDescendants :=
                       parentsOfDefunctDescendants s @ [source event]\<rparr>
              else s)
        else
          (let s1 = (if source event \<in> set (parentsOfDefunctDescendants s)
                     then s\<lparr>parentsOfDefunctDescendants :=
                              remove1 (source event) (parentsOfDefunctDescendants s)\<rparr>
                     else s)
           in if is_image ax (payload_obj (any_data event)) then (True, s1)
              else if startswith t ''object:children-changed''
                      \<and> is_menu_item ax (payload_obj (any_data event))
              then (True, s1)
              else (False, s1))
      else (False, s))"

definition ignore :: "facade \<Rightarrow> manager \<Rightarrow> event \<Rightarrow> (exn + bool) \<times> manager" where
  "ignore ax s event =
     (let t = etype event; app = get_application ax (source event) in
      if \<not> active s then (Inr True, s)
      else if list_ex (startswith t) (ignoredEvents s) then (Inr True, s)
      else if get_name ax app = ''gnome-shell''
              \<and> startswith t ''object:children-changed:remove''
      then (Inr True, s)
      else if startswith t ''window'' then (Inr False, s)
      else if startswith t ''mouse:button'' then (Inr False, s)
      else if isDuplicateEvent ax s event then (Inr True, s)
      else if endswith t ''system''
              \<and> startswith (lower (get_name ax app)) ''thunderbird''
              \<and> (is_table_related ax (source event)
                  \<or> is_tree_related ax (source event)
                  \<or> is_section ax (source event))
      then (Inr True, s)
      else if inDeluge s \<and> ignoreDuringDeluge ax s event then (Inr True, s)
      else if (startswith t ''object:children-changed''
               \<or> startswith t ''object:state-changed:sensitive'')
              \<and> activeScript s = None
      then (Inr True, s)
      else if (startswith t ''object:children-changed''
               \<or> startswith t ''object:state-changed:sensitive'')
              \<and> map_option (script_app ax) (activeScript s) \<noteq> Some app
      then (Inr True, s)
      else if startswith t ''object:text-changed''
              \<and> (case any_data event of TextData d \<Rightarrow> False | _ \<Rightarrow> True)
      then (Inl TypeError, s)
      else if startswith t ''object:text-changed''
              \<and> (case any_data event of
                    TextData d \<Rightarrow>
                      EMBEDDED_OBJECT_CHARACTER \<in> set d
                      \<and> filter (\<lambda>c. c \<noteq> EMBEDDED_OBJECT_CHARACTER) d = []
                  | _ \<Rightarrow> False)
      then (Inr True, s)
      else if has_no_state ax (source event) then (Inr True, s)
      else if is_defunct ax (source event) then (Inr True, s)
      else if ignore_role ax s event then (Inr True, s)
      else (case ignore_children ax s event of (b, s') \<Rightarrow> (Inr b, s')))"

subsection \<open>The queue\<close>

text \<open>
  \<^verbatim>\<open>queue.Queue(0)\<close> is unbounded: \<^verbatim>\<open>put\<close> appends at the back and \<^verbatim>\<open>get_nowait\<close>
  takes the front. \<^verbatim>\<open>GLib.idle_add\<close> returns a positive source id; the model hands
  out the number of the call. The lock and the sleep are not modelled.
\<close>

definition addToQueue :: "manager \<Rightarrow> event \<Rightarrow> bool \<Rightarrow> manager" where
  "addToQueue s event am =
     (let s1 = s\<lparr>eventQueue := eventQueue s @ [event]\<rparr>
      in if am \<and> gidleId s1 = 0
         then s1\<lparr>idleAdds := Suc (idleAdds s1), gidleId := Suc (idleAdds s1)\<rparr>
         else s1)"

subsection \<open>Choosing and activating a script\<close>

definition skipCheck :: "string list" where
  "skipCheck =
     [''object:children-changed'',
      ''object:column-reordered'',
      ''object:row-reordered'',
      ''object:property-change'',
      ''object:selection-changed'',
      ''object:state-changed:checked'',
      ''object:state-changed:expanded'',
      ''object:state-changed:indeterminate'',
      ''object:state-changed:pressed'',
      ''object:state-changed:selected'',
      ''object:state-changed:sensitive'',
      ''object:state-changed:showing'',
      ''object:text-changed'']"

definition getScriptForEvent :: "facade \<Rightarrow> event \<Rightarrow> script option" where
  "getScriptForEvent ax event =
     (if startswith (etype event) ''mouse:'' then getScriptForMouseButtonEvent ax event
      else
        let app = get_application ax (source event) in
        if is_defunct ax app then None
        else getScript ax app (source event)
               (\<not> list_ex (startswith (etype event)) skipCheck))"

definition isActivatableEvent ::
  "facade \<Rightarrow> manager \<Rightarrow> event \<Rightarrow> script option \<Rightarrow> bool \<times> string" where
  "isActivatableEvent ax s event script =
     (if source event = None then (False, ''event.source? What event.source??'')
      else
        case (case script of None \<Rightarrow> getScriptForEvent ax event | Some sc \<Rightarrow> Some sc) of
          None \<Rightarrow> (False, ''There is no script for this event.'')
        | Some sc \<Rightarrow>
            if Some sc = activeScript s
            then (False, ''The script for this event is already active.'')
            else if \<not> script_isActivatableEvent ax sc event
            then (False, ''The script says not to activate for this event.'')
            else if script_forceScriptActivation ax sc event
            then (True, ''The script insists it should be activated for this event.'')
            else
              let eType = etype event;
                  windowActivation =
                    (if startswith eType ''window:activate'' then True
                     else startswith eType ''object:state-changed:active''
                          \<and> detail1 event \<noteq> 0 \<and> is_frame ax (source event))
              in if windowActivation
                 then (if source event \<noteq> activeWindow s then (True, ''Window activation'')
                       else (False, ''Window activation for already-active window''))
                 else if startswith eType ''focus''
                         \<or> (startswith eType ''object:state-changed:focused''
                             \<and> detail1 event \<noteq> 0)
                 then (True, ''Event source claimed focus.'')
                 else if startswith eType ''object:state-changed:selected''
                         \<and> detail1 event \<noteq> 0
                         \<and> is_menu ax (source event) \<and> is_focusable ax (source event)
                 then (True, ''Selection change in focused menu'')
                 else if startswith eType ''object:state-changed:showing''
                         \<and> is_panel ax (source event) \<and> is_modal ax (source event)
                 then (True, ''Modal panel is showing.'')
                 else (False, ''No reason found to activate a different script.''))"

text \<open>
  Modelled from the spec: the router's \<^verbatim>\<open>activate(handler, reason)\<close>
  (\<^verbatim>\<open>_scriptManager.setActiveScript\<close>, whose module is not among the sources): the
  handler becomes the active one.
\<close>

definition setActiveScript :: "manager \<Rightarrow> script option \<Rightarrow> manager" where
  "setActiveScript s sc = s\<lparr>activeScript := sc, activations := activations s @ [sc]\<rparr>"

definition reclaimScripts :: "manager \<Rightarrow> manager" where
  "reclaimScripts s = s\<lparr>reclaims := Suc (reclaims s)\<rparr>"

subsection \<open>Processing one event\<close>

definition processInputEvent :: "manager \<Rightarrow> event \<Rightarrow> manager" where
  "processInputEvent s event =
     (case activeScript s of
        None \<Rightarrow> s
      | Some sc \<Rightarrow>
          if cls event \<noteq> BrailleEvent then s
          else s\<lparr>scriptCalls := scriptCalls s @ [(sc, event)]\<rparr>)"

text \<open>
  In \<^verbatim>\<open>_processObjectEvent\<close> the call of the script's \<^verbatim>\<open>processObjectEvent\<close> is
  recorded in \<open>scriptCalls\<close>; an exception of the script is caught by the source right
  there, and what the script itself does is outside the manager.
\<close>

definition processObjectEvent :: "facade \<Rightarrow> manager \<Rightarrow> event \<Rightarrow> manager" where
  "processObjectEvent ax s event =
     (let eType = etype event in
      if startswith eType ''object:children-changed:remove''
         \<and> source event = get_desktop ax
      then reclaimScripts s
      else
        let s1 = (if startswith eType ''window:'' \<and> \<not> endswith eType ''create''
                  then reclaimScripts s
                  else if startswith eType ''object:state-changed:active''
                          \<and> is_frame ax (source event)
                  then reclaimScripts s
                  else s)
        in
        if is_dead ax (source event) \<or> is_defunct ax (source event)
        then (if startswith eType ''window:deactivate''
                 \<or> (startswith eType ''window:destroy'' \<and> activeWindow s1 = source event)
              then setActiveScript (s1\<lparr>locusOfFocus := None, activeWindow := None\<rparr>) None
              else s1)
        else if is_iconified ax (source event) then s1
        else if inFlood s1 \<and> \<not> processDuringFlood ax s1 event then s1
        else
          let s2 = (if inFlood s1 \<and> prioritizeDuringFlood ax event
                    then pruneEventsDuringFlood ax s1 else s1)
          in
          if startswith eType ''object:selection-changed''
             \<and> source event \<in> set (parentsOfDefunctDescendants s2)
          then s2
          else
            case getScriptForEvent ax event of
              None \<Rightarrow> s2
            | Some sc \<Rightarrow>
                let setNewActiveScript = fst (isActivatableEvent ax s2 event (Some sc)) in
                if setNewActiveScript \<and> setActiveScript_raises ax sc then s2
                else
                  let s3 = (if setNewActiveScript then setActiveScript s2 (Some sc) else s2)
                  in s3\<lparr>scriptCalls := scriptCalls s3 @ [(sc, event)]\<rparr>)"

subsection \<open>Dequeue and enqueue\<close>

text \<open>
  \<^verbatim>\<open>_dequeue\<close> returns \<^verbatim>\<open>rerun\<close>. On an empty queue \<^verbatim>\<open>get_nowait\<close> raises
  \<^verbatim>\<open>queue.Empty\<close>, which the method catches. The event taken is recorded in \<open>dequeued\<close>.
\<close>

definition isObjectEvent :: "event \<Rightarrow> bool" where
  "isObjectEvent e = (cls e \<noteq> KeyboardEvent \<and> cls e \<noteq> BrailleEvent)"

definition dequeue :: "facade \<Rightarrow> manager \<Rightarrow> bool \<times> manager" where
  "dequeue ax s =
     (case eventQueue s of
        [] \<Rightarrow> (False, s\<lparr>gidleId := 0\<rparr>)
      | event # rest \<Rightarrow>
          let s1 = s\<lparr>eventQueue := rest, dequeued := dequeued s @ [event]\<rparr>;
              s2 = (if \<not> isObjectEvent event then processInputEvent s1 event
                    else
                      let p = processObjectEvent ax s1 event in
                      if didSuspendEventsFor p event then unsuspendEvents p event False
                      else if eventsSuspended p \<and> shouldUnsuspendEventsFor ax event
                      then unsuspendEvents p event True
                      else p)
          in if eventQueue s2 = []
             then (False, s2\<lparr>timeoutAdds := Suc (timeoutAdds s2), gidleId := 0\<rparr>)
             else (True, s2))"

text \<open>
  \<^verbatim>\<open>_enqueue\<close> in the order of the source: the filter inside its \<^verbatim>\<open>try\<close>
  (\<open>enqueue_ignore\<close>: an exception of \<^verbatim>\<open>_ignore\<close> sets \<^verbatim>\<open>ignore = True\<close>), the prune and
  the suspension (\<open>enqueue_flow\<close>), the choice of the mode (\<open>enqueue_mode\<close>), the script's
  event cache, \<^verbatim>\<open>_addToQueue\<close> and, when the mode is synchronous, one \<^verbatim>\<open>_dequeue\<close>.
  \<^verbatim>\<open>script.eventCache[e.type] = ...\<close> is an AttributeError when the script manager
  returns no script; that exception leaves \<^verbatim>\<open>_enqueue\<close>, so the result pairs the
  exception that reaches the caller, if any, with the manager.
\<close>

definition enqueue_ignore :: "facade \<Rightarrow> manager \<Rightarrow> event \<Rightarrow> bool \<times> manager" where
  "enqueue_ignore ax s e =
     (if isObjectEvent e
      then (case ignore ax s e of
              (Inl error, s') \<Rightarrow> (True, s')
            | (Inr b, s') \<Rightarrow> (b, s'))
      else (False, s))"

definition enqueue_flow :: "facade \<Rightarrow> manager \<Rightarrow> event \<Rightarrow> manager" where
  "enqueue_flow ax s e =
     (let s1 = (if inFlood s \<and> prioritizeDuringFlood ax e
                then pruneEventsDuringFlood ax s else s)
      in if isObjectEvent e \<and> shouldSuspendEventsFor ax e then suspendEvents s1 e else s1)"

definition enqueue_mode :: "facade \<Rightarrow> manager \<Rightarrow> event \<Rightarrow> bool" where
  "enqueue_mode ax s e =
     (if isObjectEvent e
      then (if cls e = MouseButtonEvent then True
            else if get_application_toolkit_name ax (source e) \<in> set (synchronousToolkits s)
            then False
            else if startswith (etype e) ''object:children-changed''
            then is_table ax (source e)
            else if is_notification ax (source e) then False
            else asyncMode s)
      else asyncMode s)"

definition enqueue :: "facade \<Rightarrow> manager \<Rightarrow> event \<Rightarrow> exn option \<times> manager" where
  "enqueue ax s e =
     (case enqueue_ignore ax s e of
        (True, s0) \<Rightarrow> (None, s0)
      | (False, s0) \<Rightarrow>
          let s2 = enqueue_flow ax s0 e;
              am = enqueue_mode ax s2 e
          in if isObjectEvent e
                \<and> getScript ax (get_application ax (source e)) (source e) False = None
             then (Some AttributeError, s2)
             else
               let s3 = addToQueue s2 e am
               in (None, if \<not> am then snd (dequeue ax s3) else s3))"

subsection \<open>Concrete states used by the witnesses\<close>

definition counted :: manager where
  "counted = (init_manager True)\<lparr>scriptListenerCounts := [''focus:'' \<mapsto> 1]\<rparr>"


section \<open>Theorems\<close>

subsection \<open>Listener reference counts\<close>


lemma registerListener_counts:
  "scriptListenerCounts (registerListener s k) =
     (scriptListenerCounts s)(k \<mapsto> (case scriptListenerCounts s k of None \<Rightarrow> 1 | Some c \<Rightarrow> c + 1))"
  by (simp add: registerListener_def split: option.splits)

lemma deregisterListener_counts:
  "scriptListenerCounts (deregisterListener s k) =
     (case scriptListenerCounts s k of
        None \<Rightarrow> scriptListenerCounts s
      | Some c \<Rightarrow> (scriptListenerCounts s)(k := if c = 1 then None else Some (c - 1)))"
  by (simp add: deregisterListener_def split: option.splits)

lemma registerListener_busCalls:
  "busCalls (registerListener s k) =
     busCalls s @ (if scriptListenerCounts s k = None then [BusRegister k] else [])"
  by (simp add: registerListener_def split: option.splits)

lemma deregisterListener_busCalls:
  "busCalls (deregisterListener s k) =
     busCalls s @ (if scriptListenerCounts s k = Some 1 then [BusDeregister k] else [])"
  by (simp add: deregisterListener_def split: option.splits)


lemma positive_registerListener:
  assumes "positive_counts (scriptListenerCounts s)"
  shows "positive_counts (scriptListenerCounts (registerListener s k))"
proof -
  have pos: "\<And>j c. scriptListenerCounts s j = Some c \<Longrightarrow> 0 < c"
    using assms by (simp add: positive_counts_def)
  show ?thesis
    unfolding positive_counts_def registerListener_counts
    by (auto dest!: pos split: option.splits if_splits)
qed

lemma positive_deregisterListener:
  assumes "positive_counts (scriptListenerCounts s)"
  shows "positive_counts (scriptListenerCounts (deregisterListener s k))"
proof -
  have pos: "\<And>j c. scriptListenerCounts s j = Some c \<Longrightarrow> 0 < c"
    using assms by (simp add: positive_counts_def)
  show ?thesis
    unfolding positive_counts_def deregisterListener_counts
    by (auto dest!: pos split: option.splits if_splits)
qed

text \<open>
  Claim C7. The subscription table maps each category to a positive reference count, and
  \<^verbatim>\<open>registerListener\<close> and \<^verbatim>\<open>deregisterListener\<close> keep it so. Registering a category
  adds one to its count and calls the bus's register exactly when the category was
  absent (its count becomes 1). Deregistering a category that is present takes one from
  its count and, exactly when the count reaches zero, removes the entry and calls the
  bus's deregister; a category that is absent is left alone. No other entry changes.
\<close>

theorem listener_reference_counts:
  assumes "positive_counts (scriptListenerCounts s)"
  shows "positive_counts (scriptListenerCounts (registerListener s k)) \<and>
         positive_counts (scriptListenerCounts (deregisterListener s k)) \<and>
         scriptListenerCounts (registerListener s k) k =
           Some (case scriptListenerCounts s k of None \<Rightarrow> 1 | Some c \<Rightarrow> c + 1) \<and>
         busCalls (registerListener s k) =
           busCalls s @ (if scriptListenerCounts s k = None then [BusRegister k] else []) \<and>
         scriptListenerCounts (deregisterListener s k) k =
           (case scriptListenerCounts s k of
              None \<Rightarrow> None
            | Some c \<Rightarrow> if c - 1 = 0 then None else Some (c - 1)) \<and>
         busCalls (deregisterListener s k) =
           busCalls s @
             (if \<exists>c. scriptListenerCounts s k = Some c \<and> c - 1 = 0
              then [BusDeregister k] else []) \<and>
         (\<forall>j. j \<noteq> k \<longrightarrow>
            scriptListenerCounts (registerListener s k) j = scriptListenerCounts s j \<and>
            scriptListenerCounts (deregisterListener s k) j = scriptListenerCounts s j)"
proof -
  have a: "positive_counts (scriptListenerCounts (registerListener s k))"
    using assms by (rule positive_registerListener)
  have b: "positive_counts (scriptListenerCounts (deregisterListener s k))"
    using assms by (rule positive_deregisterListener)
  have c: "scriptListenerCounts (registerListener s k) k =
           Some (case scriptListenerCounts s k of None \<Rightarrow> 1 | Some c \<Rightarrow> c + 1)"
    by (simp add: registerListener_counts)
  have d: "busCalls (registerListener s k) =
           busCalls s @ (if scriptListenerCounts s k = None then [BusRegister k] else [])"
    by (rule registerListener_busCalls)
  have e: "scriptListenerCounts (deregisterListener s k) k =
           (case scriptListenerCounts s k of
              None \<Rightarrow> None
            | Some c \<Rightarrow> if c - 1 = 0 then None else Some (c - 1))"
    by (simp add: deregisterListener_counts split: option.splits)
  have f: "busCalls (deregisterListener s k) =
           busCalls s @
             (if \<exists>c. scriptListenerCounts s k = Some c \<and> c - 1 = 0
              then [BusDeregister k] else [])"
    by (simp add: deregisterListener_busCalls)
  have g: "\<forall>j. j \<noteq> k \<longrightarrow>
            scriptListenerCounts (registerListener s k) j = scriptListenerCounts s j \<and>
            scriptListenerCounts (deregisterListener s k) j = scriptListenerCounts s j"
    by (simp add: registerListener_counts deregisterListener_counts split: option.splits)
  from a b c d e f g show ?thesis by blast
qed

theorem listener_reference_counts_witness:
  "positive_counts (scriptListenerCounts counted) \<and>
   scriptListenerCounts (registerListener counted ''focus:'') ''focus:'' = Some 2 \<and>
   busCalls (registerListener counted ''focus:'') = [] \<and>
   scriptListenerCounts (deregisterListener counted ''focus:'') ''focus:'' = None \<and>
   busCalls (deregisterListener counted ''focus:'') = [BusDeregister ''focus:'']"
proof -
  have h: "positive_counts (scriptListenerCounts counted)"
    by (simp add: positive_counts_def counted_def init_manager_def)
  show ?thesis
    using h listener_reference_counts [OF h, of "''focus:''"]
    by (simp add: counted_def init_manager_def)
qed

end
